theory Spec2Isabelle
  imports Complex_Main "HOL-Library.AList"
begin

section \<open>JavaScript values\<close>

text \<open>
  A JavaScript number is a binary64 value. The finite ones are rationals; the three
  special values are kept apart, since the handlers' checks tell them apart. The two
  zeros are one value here: no check of the handlers distinguishes them.
\<close>

datatype jsnum = NaN | PosInf | NegInf | Fin rat

text \<open>
  What a request carries after \<open>express.json()\<close> has parsed it: a JSON value, or
  \<open>undefined\<close> for a property that is absent.
\<close>

datatype jsval =
    Undefined
  | Null
  | JBool bool
  | JNum jsnum
  | JStr string
  | JArr "jsval list"
  | JObj "(string \<times> jsval) list"

text \<open>\<open>!v\<close>: the values JavaScript treats as false.\<close>

fun falsy :: "jsval \<Rightarrow> bool" where
  "falsy Undefined = True"
| "falsy Null = True"
| "falsy (JBool b) = (b = False)"
| "falsy (JNum n) = (n = NaN \<or> n = Fin 0)"
| "falsy (JStr s) = (s = [])"
| "falsy (JArr xs) = False"
| "falsy (JObj kvs) = False"

text \<open>
  The primitives of the JavaScript engine that no file of the repository defines:
  \<open>fl\<close> rounds the exact result of an arithmetic operation to binary64 (to nearest,
  ties to even, overflowing to an infinity), and \<open>to_num\<close> is \<open>ToNumber\<close> on
  strings, arrays and objects (it parses text).
\<close>

record js_engine =
  fl :: "rat \<Rightarrow> jsnum"
  to_num :: "jsval \<Rightarrow> jsnum"

fun to_number :: "js_engine \<Rightarrow> jsval \<Rightarrow> jsnum" where
  "to_number J Undefined = NaN"
| "to_number J Null = Fin 0"
| "to_number J (JBool b) = Fin (if b then 1 else 0)"
| "to_number J (JNum n) = n"
| "to_number J v = to_num J v"

text \<open>\<open>x * 100\<close> and \<open>x / 100\<close> on numbers.\<close>

fun times100 :: "js_engine \<Rightarrow> jsnum \<Rightarrow> jsnum" where
  "times100 J (Fin r) = fl J (r * 100)"
| "times100 J n = n"

fun div100 :: "js_engine \<Rightarrow> jsnum \<Rightarrow> jsnum" where
  "div100 J (Fin r) = fl J (r / 100)"
| "div100 J n = n"

text \<open>\<open>Math.round\<close>: the nearest integer, a tie going up; exact on binary64.\<close>

fun math_round :: "jsnum \<Rightarrow> jsnum" where
  "math_round (Fin r) = Fin (of_int \<lfloor>r + 1 / 2\<rfloor>)"
| "math_round n = n"

text \<open>\<open>x <= 0\<close> on numbers: every comparison with \<open>NaN\<close> is false.\<close>

fun le_zero :: "jsnum \<Rightarrow> bool" where
  "le_zero (Fin r) = (r \<le> 0)"
| "le_zero NegInf = True"
| "le_zero PosInf = False"
| "le_zero NaN = False"

text \<open>\<open>!Number.isFinite(x)\<close>.\<close>

fun not_finite :: "jsnum \<Rightarrow> bool" where
  "not_finite (Fin r) = False"
| "not_finite n = True"

section \<open>The payments gateway\<close>

text \<open>
  An error thrown by the gateway client, or by the engine (a \<open>TypeError\<close> has no
  \<open>code\<close>).
\<close>

record js_error =
  code :: "string option"
  message :: string

text \<open>
  The gateway's objects, with the properties the handlers read; the types are the ones
  the client library declares. A \<open>null\<close> property is \<open>None\<close>.
\<close>

record customer =
  cust_id :: string

record payment_intent =
  pi_id :: string
  pi_status :: string
  pi_client_secret :: "string option"

record reader =
  reader_id :: string

record location =
  loc_id :: string

record product =
  prod_id :: string
  prod_name :: string
  prod_description :: "string option"
  prod_images :: "string list option"

record price =
  price_id :: string
  price_product :: string
  price_unit_amount :: "int option"
  price_currency :: string

record invoice =
  inv_id :: string
  inv_status :: string

record event =
  event_type :: string

text \<open>
  The client, as the handlers use it. Every function answers with the object or with
  the error it throws. Within one request a handler calls each function at most once,
  so a function of the arguments describes every gateway, also a stateful one.
\<close>

record gateway =
  customers_create :: "jsval \<Rightarrow> js_error + customer"
  paymentIntents_create :: "jsval \<Rightarrow> js_error + payment_intent"
  paymentIntents_retrieve :: "jsval \<Rightarrow> js_error + payment_intent"
  paymentIntents_cancel :: "jsval \<Rightarrow> js_error + payment_intent"
  readers_cancelAction :: "jsval \<Rightarrow> js_error + reader"
  locations_create :: "jsval \<Rightarrow> js_error + location"
  products_list :: "jsval \<Rightarrow> js_error + product list"
  prices_list :: "jsval \<Rightarrow> js_error + price list"
  invoices_list :: "jsval \<Rightarrow> js_error + invoice list"
  webhooks_constructEvent :: "jsval \<Rightarrow> jsval \<Rightarrow> string \<Rightarrow> js_error + event"

text \<open>The network calls a handler issues, in the order it issues them.\<close>

datatype call =
    CustomersCreate jsval
  | PaymentIntentsCreate jsval
  | PaymentIntentsRetrieve jsval
  | PaymentIntentsCancel jsval
  | ReadersCancelAction jsval
  | LocationsCreate jsval
  | ProductsList jsval
  | PricesList jsval
  | InvoicesList jsval

text \<open>
  Startup: \<open>stripe\<close> stays \<open>undefined\<close> when the key is unset or the client's
  constructor throws.
\<close>

definition init_stripe :: "string option \<Rightarrow> (string \<Rightarrow> js_error + gateway) \<Rightarrow> gateway option" where
  "init_stripe key mk =
     (case key of
        None \<Rightarrow> None
      | Some k \<Rightarrow>
          if k = [] then None
          else (case mk k of Inl e \<Rightarrow> None | Inr g \<Rightarrow> Some g))"

section \<open>Responses\<close>

record product_entry =
  pe_id :: string
  pe_name :: string
  pe_description :: "string option"
  pe_price :: jsnum
  pe_currency :: string
  pe_priceId :: "string option"
  pe_image :: string

text \<open>The JSON bodies the handlers send, one constructor for each shape.\<close>

datatype body =
    ErrorOnly string
  | ErrorDetails string string
  | ErrorRequired string "string list"
  | LocationBody location
  | ProductsBody "product_entry list"
  | IntentCreated string "string option"
  | Received bool
  | InvoicesBody "invoice list"
  | CancelRefused string string payment_intent
  | CancelDone string reader payment_intent
  | StatusBody string

record response =
  status :: nat
  body :: body

definition not_initialized :: response where
  "not_initialized =
     \<lparr>status = 500,
      body = ErrorOnly ''Stripe is not initialized. Please check your configuration.''\<rparr>"

section \<open>Handlers of the server (index.js)\<close>

text \<open>
  A handler takes the client (\<open>None\<close> when startup left \<open>stripe\<close> undefined) and
  the request, and returns the response with the gateway calls it issued. A
  \<open>try\<close> block is a case split on what each call answers; the \<open>catch\<close> branch is
  the \<open>Inl\<close> case.
\<close>

subsection \<open>POST /api/create-location\<close>

record location_request =
  label :: jsval
  line1 :: jsval
  city :: jsval
  state :: jsval
  country :: jsval
  postal_code :: jsval

definition location_params :: "location_request \<Rightarrow> jsval" where
  "location_params b =
     JObj [(''display_name'', label b),
           (''address'', JObj [(''line1'', line1 b), (''city'', city b), (''state'', state b),
                               (''country'', country b), (''postal_code'', postal_code b)])]"

definition location_failure :: "js_error \<Rightarrow> response" where
  "location_failure e =
     (if code e = Some ''invalid_request_error''
      then \<lparr>status = 400, body = ErrorOnly ''Invalid address information provided''\<rparr>
      else \<lparr>status = 500, body = ErrorDetails ''Failed to create location'' (message e)\<rparr>)"

definition create_location :: "gateway option \<Rightarrow> location_request \<Rightarrow> response \<times> call list" where
  "create_location stripe b =
     (case stripe of
        None \<Rightarrow> (not_initialized, [])
      | Some g \<Rightarrow>
          if falsy (label b) \<or> falsy (line1 b) \<or> falsy (city b) \<or> falsy (state b)
             \<or> falsy (country b) \<or> falsy (postal_code b)
          then (\<lparr>status = 400,
                 body = ErrorRequired ''Missing required address fields''
                   [''label'', ''line1'', ''city'', ''state'', ''country'', ''postal_code'']\<rparr>, [])
          else (case locations_create g (location_params b) of
                  Inl e \<Rightarrow> (location_failure e, [LocationsCreate (location_params b)])
                | Inr l \<Rightarrow> (\<lparr>status = 200, body = LocationBody l\<rparr>,
                            [LocationsCreate (location_params b)])))"

subsection \<open>GET /api/products\<close>

definition list_params :: "nat \<Rightarrow> jsval" where
  "list_params n = JObj [(''active'', JBool True), (''limit'', JNum (Fin (of_nat n)))]"

text \<open>The callback of \<open>prices.data.find\<close>: \<open>p.product === product.id && p.unit_amount\<close>.\<close>

definition price_matches :: "product \<Rightarrow> price \<Rightarrow> bool" where
  "price_matches pr p =
     (price_product p = prod_id pr \<and>
      (case price_unit_amount p of None \<Rightarrow> False | Some u \<Rightarrow> u \<noteq> 0))"

text \<open>\<open>price.unit_amount / 100\<close>; \<open>null / 100\<close> is \<open>0\<close>.\<close>

definition unit_amount_div100 :: "js_engine \<Rightarrow> price \<Rightarrow> jsnum" where
  "unit_amount_div100 J p =
     (case price_unit_amount p of None \<Rightarrow> Fin 0 | Some u \<Rightarrow> div100 J (Fin (of_int u)))"

text \<open>The callback of \<open>products.data.map\<close>.\<close>

definition productMap :: "js_engine \<Rightarrow> price list \<Rightarrow> product \<Rightarrow> product_entry" where
  "productMap J prices pr =
     (let price = find (price_matches pr) prices in
      \<lparr>pe_id = prod_id pr,
       pe_name = prod_name pr,
       pe_description = prod_description pr,
       pe_price = (case price of Some p \<Rightarrow> unit_amount_div100 J p | None \<Rightarrow> Fin 0),
       pe_currency = (case price of Some p \<Rightarrow> price_currency p | None \<Rightarrow> ''usd''),
       pe_priceId = (case price of
                       Some p \<Rightarrow> if price_id p = [] then None else Some (price_id p)
                     | None \<Rightarrow> None),
       pe_image = (case prod_images pr of
                     Some (i # is) \<Rightarrow> i
                   | _ \<Rightarrow> [])\<rparr>)"

definition products_failure :: "js_error \<Rightarrow> response" where
  "products_failure e = \<lparr>status = 500, body = ErrorDetails ''Failed to fetch products'' (message e)\<rparr>"

definition products :: "js_engine \<Rightarrow> gateway option \<Rightarrow> response \<times> call list" where
  "products J stripe =
     (case stripe of
        None \<Rightarrow> (not_initialized, [])
      | Some g \<Rightarrow>
          (case products_list g (list_params 100) of
             Inl e \<Rightarrow> (products_failure e, [ProductsList (list_params 100)])
           | Inr ps \<Rightarrow>
               (case prices_list g (list_params 100) of
                  Inl e \<Rightarrow> (products_failure e,
                            [ProductsList (list_params 100), PricesList (list_params 100)])
                | Inr qs \<Rightarrow> (\<lparr>status = 200, body = ProductsBody (map (productMap J qs) ps)\<rparr>,
                             [ProductsList (list_params 100), PricesList (list_params 100)]))))"

subsection \<open>POST /api/create-payment-intent\<close>

record intent_request =
  amount :: jsval
  metadata :: jsval

text \<open>
  \<open>const { name, email } = metadata\<close>: destructuring \<open>undefined\<close> or \<open>null\<close>
  throws a \<open>TypeError\<close> (the message is V8's); a property that is not there is
  \<open>undefined\<close>.
\<close>

definition lookup :: "(string \<times> jsval) list \<Rightarrow> string \<Rightarrow> jsval" where
  "lookup kvs k = (case map_of kvs k of None \<Rightarrow> Undefined | Some v \<Rightarrow> v)"

fun destructure_name_email :: "jsval \<Rightarrow> js_error + jsval \<times> jsval" where
  "destructure_name_email Undefined =
     Inl \<lparr>code = None,
          message = ''Cannot destructure property 'name' of 'metadata' as it is undefined.''\<rparr>"
| "destructure_name_email Null =
     Inl \<lparr>code = None,
          message = ''Cannot destructure property 'name' of 'metadata' as it is null.''\<rparr>"
| "destructure_name_email (JObj kvs) = Inr (lookup kvs ''name'', lookup kvs ''email'')"
| "destructure_name_email v = Inr (Undefined, Undefined)"

text \<open>
  \<open>{ ...metadata, name: email }\<close>: the own properties of \<open>metadata\<close>, with
  \<open>name\<close> set to \<open>email\<close> (in place when it is there, added last otherwise). The
  handler reaches the spread only when \<open>metadata\<close> is an object.
\<close>

fun spread_with_name :: "jsval \<Rightarrow> jsval \<Rightarrow> jsval" where
  "spread_with_name (JObj kvs) email = JObj (AList.update ''name'' email kvs)"
| "spread_with_name v email = JObj [(''name'', email)]"

definition customer_params :: "jsval \<Rightarrow> jsval \<Rightarrow> jsval" where
  "customer_params name email = JObj [(''email'', email), (''name'', name)]"

definition intent_params :: "js_engine \<Rightarrow> intent_request \<Rightarrow> jsval \<Rightarrow> jsval \<Rightarrow> customer \<Rightarrow> jsval" where
  "intent_params J b name email c =
     JObj [(''amount'', JNum (math_round (times100 J (to_number J (amount b))))),
           (''currency'', JStr ''usd''),
           (''payment_method_types'', JArr [JStr ''card_present'']),
           (''metadata'', spread_with_name (metadata b) email),
           (''receipt_email'', email),
           (''customer'', JStr (cust_id c)),
           (''shipping'', JObj [(''name'', name),
              (''address'', JObj [(''line1'', JStr []), (''city'', JStr []), (''state'', JStr []),
                                  (''postal_code'', JStr []), (''country'', JStr [])])])]"

definition intent_failure :: "js_error \<Rightarrow> response" where
  "intent_failure e =
     (if code e = Some ''parameter_invalid_integer''
      then \<lparr>status = 400, body = ErrorOnly ''Invalid amount provided''\<rparr>
      else \<lparr>status = 500, body = ErrorDetails ''Failed to create payment intent'' (message e)\<rparr>)"

definition create_payment_intent ::
    "js_engine \<Rightarrow> gateway option \<Rightarrow> intent_request \<Rightarrow> response \<times> call list" where
  "create_payment_intent J stripe b =
     (case stripe of
        None \<Rightarrow> (not_initialized, [])
      | Some g \<Rightarrow>
          (case destructure_name_email (metadata b) of
             Inl e \<Rightarrow> (intent_failure e, [])
           | Inr (name, email) \<Rightarrow>
               if falsy name \<or> falsy email
               then (\<lparr>status = 400, body = ErrorOnly ''Customer email and name is required''\<rparr>, [])
               else if falsy (amount b) \<or> le_zero (to_number J (amount b))
               then (\<lparr>status = 400,
                      body = ErrorOnly ''Valid amount is required (must be greater than 0)''\<rparr>, [])
               else
                 (case customers_create g (customer_params name email) of
                    Inl e \<Rightarrow> (intent_failure e, [CustomersCreate (customer_params name email)])
                  | Inr c \<Rightarrow>
                      (case paymentIntents_create g (intent_params J b name email c) of
                         Inl e \<Rightarrow> (intent_failure e,
                                   [CustomersCreate (customer_params name email),
                                    PaymentIntentsCreate (intent_params J b name email c)])
                       | Inr intent \<Rightarrow>
                           (\<lparr>status = 200,
                             body = IntentCreated (pi_id intent) (pi_client_secret intent)\<rparr>,
                            [CustomersCreate (customer_params name email),
                             PaymentIntentsCreate (intent_params J b name email c)])))))"

subsection \<open>POST /webhook\<close>

text \<open>
  \<open>payload\<close> is \<open>req.body\<close> as the middleware left it, and
  \<open>stripe_signature\<close> is the header of that name.
\<close>

record webhook_request =
  payload :: jsval
  stripe_signature :: jsval

text \<open>What the handler writes to the console.\<close>

datatype log_line = LogError string | LogInfo string | LogWarn string

text \<open>The \<open>switch\<close> over \<open>event.type\<close>.\<close>

definition dispatch :: "event \<Rightarrow> log_line" where
  "dispatch ev =
     (if event_type ev = ''payment_intent.succeeded'' then LogInfo ''PaymentIntent was successful!''
      else if event_type ev = ''payment_intent.payment_failed'' then LogInfo ''PaymentIntent failed.''
      else LogWarn (''Unhandled event type: '' @ event_type ev))"

text \<open>
  \<open>stripe.webhooks.constructEvent(...)\<close>, inside the first \<open>try\<close>: reading
  \<open>webhooks\<close> of \<open>undefined\<close> throws there too.
\<close>

definition constructEvent :: "gateway option \<Rightarrow> webhook_request \<Rightarrow> string \<Rightarrow> js_error + event" where
  "constructEvent stripe req secret =
     (case stripe of
        None \<Rightarrow> Inl \<lparr>code = None,
                     message = ''Cannot read properties of undefined (reading 'webhooks')''\<rparr>
      | Some g \<Rightarrow> webhooks_constructEvent g (payload req) (stripe_signature req) secret)"

text \<open>
  \<open>secret\<close> is \<open>process.env.STRIPE_WEBHOOK_SECRET\<close>. The second \<open>try\<close> holds
  the \<open>switch\<close> and the answer; nothing in it throws.
\<close>

definition webhook :: "string option \<Rightarrow> gateway option \<Rightarrow> webhook_request \<Rightarrow> response \<times> log_line list" where
  "webhook secret stripe req =
     (case secret of
        None \<Rightarrow> (\<lparr>status = 500, body = ErrorOnly ''Webhook secret not configured''\<rparr>,
                 [LogError ''STRIPE_WEBHOOK_SECRET is not set''])
      | Some s \<Rightarrow>
          if s = []
          then (\<lparr>status = 500, body = ErrorOnly ''Webhook secret not configured''\<rparr>,
                [LogError ''STRIPE_WEBHOOK_SECRET is not set''])
          else (case constructEvent stripe req s of
                  Inl err \<Rightarrow>
                    (\<lparr>status = 400, body = ErrorOnly (''Webhook Error: '' @ message err)\<rparr>,
                     [LogError (''Webhook signature verification failed: '' @ message err)])
                | Inr ev \<Rightarrow> (\<lparr>status = 200, body = Received True\<rparr>, [dispatch ev])))"

text \<open>
  What comes before the handler. The request as it arrives: whether it has a body (a
  \<open>Content-Length\<close> or \<open>Transfer-Encoding\<close> header), the media type of its
  \<open>Content-Type\<close>, the bytes of the body, and the \<open>stripe-signature\<close> header.
\<close>

datatype media = JsonMedia | FormMedia | OtherMedia

record http_request =
  has_body :: bool
  media :: media
  content :: string
  signature :: jsval

text \<open>
  The parsers of the framework, which no file of the repository defines. The JSON parser
  is strict: what it reads is an object or an array, or it throws. The form parser reads
  an object, or throws.
\<close>

datatype json_top = TopObj "(string \<times> jsval) list" | TopArr "jsval list"

fun top_value :: "json_top \<Rightarrow> jsval" where
  "top_value (TopObj kvs) = JObj kvs"
| "top_value (TopArr xs) = JArr xs"

record body_parsers =
  parse_json :: "string \<Rightarrow> js_error + json_top"
  parse_form :: "string \<Rightarrow> js_error + (string \<times> jsval) list"

text \<open>
  \<open>req.body\<close> of a request no parser has read: \<open>{}\<close> in version 4 of the
  framework, \<open>undefined\<close> in version 5.
\<close>

datatype express = Express4 | Express5

fun unparsed_body :: "express \<Rightarrow> jsval" where
  "unparsed_body Express4 = JObj []"
| "unparsed_body Express5 = Undefined"

text \<open>
  \<open>req.body\<close> when the handler of \<open>/webhook\<close> starts. index.js installs
  \<open>express.json()\<close> and \<open>express.urlencoded(...)\<close> for every route (lines 19 and
  20), and \<open>express.raw({ type: "application/json" })\<close> on the route itself (line
  321). A request of type \<open>application/json\<close> is read by \<open>express.json()\<close>, which
  comes first (an empty body reads as \<open>{}\<close>); \<open>express.raw\<close> then finds the body
  already parsed and passes the request on. A request of another type is none of
  \<open>express.raw\<close>'s. A parser that throws hands the error to the error handler, and
  the route's handler does not run.
\<close>

definition req_body :: "express \<Rightarrow> body_parsers \<Rightarrow> http_request \<Rightarrow> js_error + jsval" where
  "req_body ver P r =
     (if has_body r
      then (case media r of
              JsonMedia \<Rightarrow>
                if content r = [] then Inr (JObj [])
                else (case parse_json P (content r) of
                        Inl e \<Rightarrow> Inl e
                      | Inr t \<Rightarrow> Inr (top_value t))
            | FormMedia \<Rightarrow>
                (case parse_form P (content r) of
                   Inl e \<Rightarrow> Inl e
                 | Inr kvs \<Rightarrow> Inr (JObj kvs))
            | OtherMedia \<Rightarrow> Inr (unparsed_body ver))
      else Inr (unparsed_body ver))"

text \<open>
  The error handler (index.js lines 509 to 518); \<open>node_env\<close> is
  \<open>process.env.NODE_ENV\<close>. The console gets the error; its message stands for it
  here.
\<close>

definition error_handler :: "string option \<Rightarrow> js_error \<Rightarrow> response \<times> log_line list" where
  "error_handler node_env e =
     (\<lparr>status = 500,
       body = ErrorDetails ''Internal server error''
                (if node_env = Some ''development'' then message e else ''Something went wrong'')\<rparr>,
      [LogError (''Unhandled error: '' @ message e)])"

text \<open>The route as a whole: the parsers, then the handler.\<close>

definition webhook_route ::
    "express \<Rightarrow> body_parsers \<Rightarrow> string option \<Rightarrow> string option \<Rightarrow> gateway option \<Rightarrow> http_request
       \<Rightarrow> response \<times> log_line list" where
  "webhook_route ver P node_env secret stripe r =
     (case req_body ver P r of
        Inl e \<Rightarrow> error_handler node_env e
      | Inr v \<Rightarrow> webhook secret stripe \<lparr>payload = v, stripe_signature = signature r\<rparr>)"

text \<open>The payloads the client library can verify: text (a string or a \<open>Buffer\<close>).\<close>

fun is_text :: "jsval \<Rightarrow> bool" where
  "is_text (JStr t) = True"
| "is_text v = False"

subsection \<open>GET /api/invoices\<close>

definition statusOrder :: "(string \<times> int) list" where
  "statusOrder = [(''open'', 0), (''draft'', 1), (''uncollectible'', 2), (''paid'', 3), (''void'', 4)]"

text \<open>
  \<open>statusOrder[s] || 99\<close>: a status that is no key gives \<open>undefined\<close>, and so
  \<open>99\<close>; the rank \<open>0\<close> is false as well, and gives \<open>99\<close> too. (A \<open>null\<close> status
  reads the key \<open>null\<close>. The names \<open>Object.prototype\<close> defines are no invoice
  statuses and are left out.)
\<close>

definition rank_or_99 :: "string \<Rightarrow> int" where
  "rank_or_99 s = (case map_of statusOrder s of None \<Rightarrow> 99 | Some r \<Rightarrow> if r = 0 then 99 else r)"

text \<open>The comparator: negative when \<open>a\<close> goes first.\<close>

definition compare_invoices :: "invoice \<Rightarrow> invoice \<Rightarrow> int" where
  "compare_invoices a b = rank_or_99 (inv_status b) - rank_or_99 (inv_status a)"

text \<open>
  \<open>Array.prototype.sort\<close> with a comparator: the sort is stable (ECMAScript 2019), so
  for a comparator that orders by a key the result is the one of a stable insertion
  sort.
\<close>

fun insert_by :: "('a \<Rightarrow> 'a \<Rightarrow> int) \<Rightarrow> 'a \<Rightarrow> 'a list \<Rightarrow> 'a list" where
  "insert_by cmp x [] = [x]"
| "insert_by cmp x (y # ys) = (if cmp x y \<le> 0 then x # y # ys else y # insert_by cmp x ys)"

fun js_sort :: "('a \<Rightarrow> 'a \<Rightarrow> int) \<Rightarrow> 'a list \<Rightarrow> 'a list" where
  "js_sort cmp [] = []"
| "js_sort cmp (x # xs) = insert_by cmp x (js_sort cmp xs)"

definition sortedInvoices :: "invoice list \<Rightarrow> invoice list" where
  "sortedInvoices data = js_sort compare_invoices data"

definition invoices :: "gateway option \<Rightarrow> response \<times> call list" where
  "invoices stripe =
     (case stripe of
        None \<Rightarrow> (not_initialized, [])
      | Some g \<Rightarrow>
          (case invoices_list g (JObj [(''limit'', JNum (Fin 40))]) of
             Inl e \<Rightarrow> (\<lparr>status = 500, body = ErrorDetails ''Failed to fetch invoices'' (message e)\<rparr>,
                       [InvoicesList (JObj [(''limit'', JNum (Fin 40))])])
           | Inr data \<Rightarrow> (\<lparr>status = 200, body = InvoicesBody (sortedInvoices data)\<rparr>,
                          [InvoicesList (JObj [(''limit'', JNum (Fin 40))])])))"

subsection \<open>POST /api/cancel-payment-intent\<close>

record cancel_request =
  paymentIntentId :: jsval
  readerId :: jsval

definition cancel_failure :: "js_error \<Rightarrow> response" where
  "cancel_failure e = \<lparr>status = 500, body = ErrorOnly (message e)\<rparr>"

definition cancel_payment_intent :: "gateway option \<Rightarrow> cancel_request \<Rightarrow> response \<times> call list" where
  "cancel_payment_intent stripe b =
     (case stripe of
        None \<Rightarrow> (not_initialized, [])
      | Some g \<Rightarrow>
          if falsy (paymentIntentId b) \<or> falsy (readerId b)
          then (\<lparr>status = 400, body = ErrorOnly ''Both paymentIntentId and readerId are required''\<rparr>, [])
          else
            (case paymentIntents_retrieve g (paymentIntentId b) of
               Inl e \<Rightarrow> (cancel_failure e, [PaymentIntentsRetrieve (paymentIntentId b)])
             | Inr intent \<Rightarrow>
                 if pi_status intent = ''succeeded''
                 then (\<lparr>status = 409,
                        body = CancelRefused ''Payment already succeeded and cannot be canceled''
                                 ''succeeded'' intent\<rparr>,
                       [PaymentIntentsRetrieve (paymentIntentId b)])
                 else if pi_status intent = ''cancelled''
                 then (\<lparr>status = 200,
                        body = CancelRefused ''Payment already cancelled'' ''succeeded'' intent\<rparr>,
                       [PaymentIntentsRetrieve (paymentIntentId b)])
                 else
                   (case readers_cancelAction g (readerId b) of
                      Inl e \<Rightarrow> (cancel_failure e,
                                [PaymentIntentsRetrieve (paymentIntentId b),
                                 ReadersCancelAction (readerId b)])
                    | Inr reader \<Rightarrow>
                        (case paymentIntents_cancel g (paymentIntentId b) of
                           Inl e \<Rightarrow> (cancel_failure e,
                                     [PaymentIntentsRetrieve (paymentIntentId b),
                                      ReadersCancelAction (readerId b),
                                      PaymentIntentsCancel (paymentIntentId b)])
                         | Inr cancelledIntent \<Rightarrow>
                             (\<lparr>status = 200,
                               body = CancelDone ''Payment canceled successfully'' reader
                                        cancelledIntent\<rparr>,
                              [PaymentIntentsRetrieve (paymentIntentId b),
                               ReadersCancelAction (readerId b),
                               PaymentIntentsCancel (paymentIntentId b)])))))"

subsection \<open>GET /api/payment-intent-status\<close>

text \<open>
  The handler has no check of \<open>stripe\<close>: reading \<open>paymentIntents\<close> of
  \<open>undefined\<close> throws inside the \<open>try\<close>, and the \<open>catch\<close> answers as for any
  other error. \<open>query_id\<close> is \<open>req.query.id\<close>.
\<close>

definition status_failure :: response where
  "status_failure = \<lparr>status = 500, body = ErrorOnly ''Failed to fetch payment intent status''\<rparr>"

definition payment_intent_status :: "gateway option \<Rightarrow> jsval \<Rightarrow> response \<times> call list" where
  "payment_intent_status stripe query_id =
     (case stripe of
        None \<Rightarrow> (status_failure, [])
      | Some g \<Rightarrow>
          (case paymentIntents_retrieve g query_id of
             Inl e \<Rightarrow> (status_failure, [PaymentIntentsRetrieve query_id])
           | Inr intent \<Rightarrow> (\<lparr>status = 200, body = StatusBody (pi_status intent)\<rparr>,
                            [PaymentIntentsRetrieve query_id])))"

section \<open>The other two servers' create-payment-intent\<close>

text \<open>
  The second program of index.js and the serverless one have the same handler, but for
  \<open>capture_method\<close>: it validates \<open>Number(amount)\<close>, creates no customer, and
  passes \<open>metadata || {}\<close> on. Neither checks \<open>stripe\<close>; the call is inside the
  \<open>try\<close>.
\<close>

definition metadata_or_empty :: "jsval \<Rightarrow> jsval" where
  "metadata_or_empty m = (if falsy m then JObj [] else m)"

definition variant_params :: "(string \<times> jsval) list \<Rightarrow> js_engine \<Rightarrow> intent_request \<Rightarrow> jsval" where
  "variant_params capture J b =
     JObj ([(''amount'', JNum (math_round (times100 J (to_number J (amount b))))),
            (''currency'', JStr ''usd'')]
           @ capture @
           [(''payment_method_types'', JArr [JStr ''card_present'']),
            (''metadata'', metadata_or_empty (metadata b))])"

definition create_payment_intent_variant ::
    "(string \<times> jsval) list \<Rightarrow> js_engine \<Rightarrow> gateway option \<Rightarrow> intent_request \<Rightarrow> response \<times> call list" where
  "create_payment_intent_variant capture J stripe b =
     (let parsedAmount = to_number J (amount b) in
      if not_finite parsedAmount \<or> le_zero parsedAmount
      then (\<lparr>status = 400, body = ErrorOnly ''Invalid amount provided.''\<rparr>, [])
      else
        (case stripe of
           None \<Rightarrow> (\<lparr>status = 500, body = ErrorOnly ''Failed to create payment intent.''\<rparr>, [])
         | Some g \<Rightarrow>
             (case paymentIntents_create g (variant_params capture J b) of
                Inl e \<Rightarrow> (\<lparr>status = 500, body = ErrorOnly ''Failed to create payment intent.''\<rparr>,
                          [PaymentIntentsCreate (variant_params capture J b)])
              | Inr intent \<Rightarrow>
                  (\<lparr>status = 200, body = IntentCreated (pi_id intent) (pi_client_secret intent)\<rparr>,
                   [PaymentIntentsCreate (variant_params capture J b)]))))"

text \<open>index.js, second program: \<open>capture_method: "manual"\<close>.\<close>

definition create_payment_intent_manual ::
    "js_engine \<Rightarrow> gateway option \<Rightarrow> intent_request \<Rightarrow> response \<times> call list" where
  "create_payment_intent_manual = create_payment_intent_variant [(''capture_method'', JStr ''manual'')]"

text \<open>The serverless program: no \<open>capture_method\<close>.\<close>

definition create_payment_intent_serverless ::
    "js_engine \<Rightarrow> gateway option \<Rightarrow> intent_request \<Rightarrow> response \<times> call list" where
  "create_payment_intent_serverless = create_payment_intent_variant []"

section \<open>Reading a call, and sample surroundings\<close>

text \<open>A property of the object literal a call was given.\<close>

fun param :: "jsval \<Rightarrow> string \<Rightarrow> jsval" where
  "param (JObj kvs) k = lookup kvs k"
| "param v k = Undefined"

text \<open>
  The wording of the specification for the price of a product: the first price whose
  product is the product's id and whose unit amount is set.
\<close>

definition spec_first_price :: "price list \<Rightarrow> product \<Rightarrow> price option" where
  "spec_first_price prices pr =
     find (\<lambda>p. price_product p = prod_id pr \<and> price_unit_amount p \<noteq> None) prices"

text \<open>
  An engine for the examples: it is binary64 arithmetic wherever the exact result is a
  binary64 value, and its \<open>to_num\<close> answers \<open>NaN\<close>, which is \<open>ToNumber\<close> of a
  text that is no numeral and of an object.
\<close>

definition sample_engine :: js_engine where
  "sample_engine = \<lparr>fl = Fin, to_num = (\<lambda>v. NaN)\<rparr>"

text \<open>
  A gateway that accepts every call: a retrieved intent has the status \<open>st\<close>, and the
  lists are the given ones. Its \<open>constructEvent\<close> is the library's in kind: it
  refuses a payload that is not text, and verifies a text when the signature is
  \<open>good\<close> (the event is then a refund).
\<close>

definition sample_gateway :: "string \<Rightarrow> product list \<Rightarrow> price list \<Rightarrow> invoice list \<Rightarrow> gateway" where
  "sample_gateway st ps qs invs =
     \<lparr>customers_create = (\<lambda>p. Inr \<lparr>cust_id = ''cus_1''\<rparr>),
      paymentIntents_create =
        (\<lambda>p. Inr \<lparr>pi_id = ''pi_1'', pi_status = ''requires_payment_method'',
                   pi_client_secret = Some ''pi_1_secret''\<rparr>),
      paymentIntents_retrieve =
        (\<lambda>i. Inr \<lparr>pi_id = ''pi_1'', pi_status = st, pi_client_secret = Some ''pi_1_secret''\<rparr>),
      paymentIntents_cancel =
        (\<lambda>i. Inr \<lparr>pi_id = ''pi_1'', pi_status = ''canceled'',
                   pi_client_secret = Some ''pi_1_secret''\<rparr>),
      readers_cancelAction = (\<lambda>r. Inr \<lparr>reader_id = ''tmr_1''\<rparr>),
      locations_create = (\<lambda>p. Inr \<lparr>loc_id = ''tml_1''\<rparr>),
      products_list = (\<lambda>p. Inr ps),
      prices_list = (\<lambda>p. Inr qs),
      invoices_list = (\<lambda>p. Inr invs),
      webhooks_constructEvent =
        (\<lambda>payload sig secret.
           if is_text payload
           then (if sig = JStr ''good'' then Inr \<lparr>event_type = ''charge.refunded''\<rparr>
                 else Inl \<lparr>code = None,
                           message = ''No signatures found matching the expected signature for payload''\<rparr>)
           else Inl \<lparr>code = None,
                     message = ''Webhook payload must be provided as a string or a Buffer''\<rparr>)\<rparr>"

text \<open>A gateway where every call throws \<open>e\<close>.\<close>

definition failing_gateway :: "js_error \<Rightarrow> gateway" where
  "failing_gateway e =
     \<lparr>customers_create = (\<lambda>p. Inl e),
      paymentIntents_create = (\<lambda>p. Inl e),
      paymentIntents_retrieve = (\<lambda>i. Inl e),
      paymentIntents_cancel = (\<lambda>i. Inl e),
      readers_cancelAction = (\<lambda>r. Inl e),
      locations_create = (\<lambda>p. Inl e),
      products_list = (\<lambda>p. Inl e),
      prices_list = (\<lambda>p. Inl e),
      invoices_list = (\<lambda>p. Inl e),
      webhooks_constructEvent = (\<lambda>payload sig secret. Inl e)\<rparr>"

definition sample_cancel :: cancel_request where
  "sample_cancel = \<lparr>paymentIntentId = JStr ''pi_1'', readerId = JStr ''tmr_1''\<rparr>"

definition sample_metadata :: jsval where
  "sample_metadata =
     JObj [(''name'', JStr ''Ann''), (''email'', JStr ''ann@example.com''), (''order'', JStr ''17'')]"

definition sample_location :: location_request where
  "sample_location =
     \<lparr>label = JStr ''Shop'', line1 = JStr ''1 Main St'', city = JStr ''Reno'', state = JStr ''NV'',
      country = JStr ''US'', postal_code = JStr ''89501''\<rparr>"

definition sample_request :: intent_request where
  "sample_request = \<lparr>amount = JNum (Fin (25 / 2)), metadata = sample_metadata\<rparr>"

text \<open>
  A refund event as the gateway posts it, with a signature that verifies over its text,
  and parsers that read that text.
\<close>

definition sample_text :: string where
  "sample_text =
     ''{'' @ [CHR 0x22] @ ''type'' @ [CHR 0x22] @ '':'' @ [CHR 0x22] @ ''charge.refunded''
     @ [CHR 0x22] @ ''}''"

definition sample_hook :: http_request where
  "sample_hook =
     \<lparr>has_body = True, media = JsonMedia, content = sample_text, signature = JStr ''good''\<rparr>"

definition sample_parsers :: body_parsers where
  "sample_parsers =
     \<lparr>parse_json =
        (\<lambda>t. if t = sample_text then Inr (TopObj [(''type'', JStr ''charge.refunded'')])
             else Inl \<lparr>code = None, message = ''Unexpected token in JSON''\<rparr>),
      parse_form = (\<lambda>t. Inr [])\<rparr>"

definition conn_error :: js_error where
  "conn_error = \<lparr>code = None, message = ''An error occurred with our connection to Stripe.''\<rparr>"

definition tea :: product where
  "tea = \<lparr>prod_id = ''prod_tea'', prod_name = ''Tea'', prod_description = None,
          prod_images = Some [''tea.png'']\<rparr>"

definition mug :: product where
  "mug = \<lparr>prod_id = ''prod_mug'', prod_name = ''Mug'', prod_description = Some ''A mug'',
          prod_images = Some []\<rparr>"

definition tea_free :: price where
  "tea_free = \<lparr>price_id = ''price_free'', price_product = ''prod_tea'', price_unit_amount = Some 0,
               price_currency = ''eur''\<rparr>"

definition tea_paid :: price where
  "tea_paid = \<lparr>price_id = ''price_paid'', price_product = ''prod_tea'', price_unit_amount = Some 500,
               price_currency = ''gbp''\<rparr>"

section \<open>Cancelling a payment intent\<close>

lemma cancel_succeeded_is_refused:
  assumes "\<not> falsy (paymentIntentId b)" and "\<not> falsy (readerId b)"
    and "paymentIntents_retrieve g (paymentIntentId b) = Inr intent"
    and "pi_status intent = ''succeeded''"
  shows "cancel_payment_intent (Some g) b =
           (\<lparr>status = 409,
             body = CancelRefused ''Payment already succeeded and cannot be canceled''
                      ''succeeded'' intent\<rparr>,
            [PaymentIntentsRetrieve (paymentIntentId b)])"
  using assms by (simp add: cancel_payment_intent_def)

lemma cancel_cancelled_is_accepted:
  assumes "\<not> falsy (paymentIntentId b)" and "\<not> falsy (readerId b)"
    and "paymentIntents_retrieve g (paymentIntentId b) = Inr intent"
    and "pi_status intent = ''cancelled''"
  shows "cancel_payment_intent (Some g) b =
           (\<lparr>status = 200, body = CancelRefused ''Payment already cancelled'' ''succeeded'' intent\<rparr>,
            [PaymentIntentsRetrieve (paymentIntentId b)])"
  using assms by (simp add: cancel_payment_intent_def)

lemma cancel_other_status_calls:
  assumes "\<not> falsy (paymentIntentId b)" and "\<not> falsy (readerId b)"
    and "paymentIntents_retrieve g (paymentIntentId b) = Inr intent"
    and "pi_status intent \<noteq> ''succeeded''" and "pi_status intent \<noteq> ''cancelled''"
    and "readers_cancelAction g (readerId b) = Inr r"
  shows "snd (cancel_payment_intent (Some g) b) =
           [PaymentIntentsRetrieve (paymentIntentId b), ReadersCancelAction (readerId b),
            PaymentIntentsCancel (paymentIntentId b)]"
  using assms by (simp add: cancel_payment_intent_def split: sum.splits)

text \<open>
  Claim C1, at the status the gateway gives a cancelled intent: the handler compares
  the status with \<open>cancelled\<close>, and the gateway's word is \<open>canceled\<close>. So for an
  intent that is already \<open>canceled\<close> the handler does not stop: it asks the reader to
  cancel its action, and when the reader answers it asks the gateway to cancel the
  intent again.
\<close>

theorem cancel_of_canceled_intent_issues_cancellation:
  assumes "\<not> falsy (paymentIntentId b)" and "\<not> falsy (readerId b)"
    and "paymentIntents_retrieve g (paymentIntentId b) = Inr intent"
    and "pi_status intent = ''canceled''"
    and "readers_cancelAction g (readerId b) = Inr r"
  shows "snd (cancel_payment_intent (Some g) b) =
           [PaymentIntentsRetrieve (paymentIntentId b), ReadersCancelAction (readerId b),
            PaymentIntentsCancel (paymentIntentId b)]"
  using assms by (simp add: cancel_payment_intent_def split: sum.splits)

theorem cancel_of_canceled_intent_example:
  "cancel_payment_intent (Some (sample_gateway ''canceled'' [] [] [])) sample_cancel =
     (\<lparr>status = 200,
       body = CancelDone ''Payment canceled successfully'' \<lparr>reader_id = ''tmr_1''\<rparr>
                \<lparr>pi_id = ''pi_1'', pi_status = ''canceled'',
                 pi_client_secret = Some ''pi_1_secret''\<rparr>\<rparr>,
      [PaymentIntentsRetrieve (JStr ''pi_1''), ReadersCancelAction (JStr ''tmr_1''),
       PaymentIntentsCancel (JStr ''pi_1'')])"
proof -
  let ?g = "sample_gateway ''canceled'' [] [] []"
  have calls: "snd (cancel_payment_intent (Some ?g) sample_cancel) =
      [PaymentIntentsRetrieve (paymentIntentId sample_cancel),
       ReadersCancelAction (readerId sample_cancel),
       PaymentIntentsCancel (paymentIntentId sample_cancel)]"
    by (rule cancel_of_canceled_intent_issues_cancellation
          [where intent = "\<lparr>pi_id = ''pi_1'', pi_status = ''canceled'',
                            pi_client_secret = Some ''pi_1_secret''\<rparr>"
             and r = "\<lparr>reader_id = ''tmr_1''\<rparr>"])
       (simp_all add: sample_gateway_def sample_cancel_def)
  have "fst (cancel_payment_intent (Some ?g) sample_cancel) =
      \<lparr>status = 200,
       body = CancelDone ''Payment canceled successfully'' \<lparr>reader_id = ''tmr_1''\<rparr>
                \<lparr>pi_id = ''pi_1'', pi_status = ''canceled'',
                 pi_client_secret = Some ''pi_1_secret''\<rparr>\<rparr>"
    by (simp add: cancel_payment_intent_def sample_gateway_def sample_cancel_def)
  with calls show ?thesis
    by (simp add: prod_eq_iff sample_cancel_def)
qed

section \<open>Listing invoices\<close>

lemma set_insert_by: "set (insert_by cmp x ys) = insert x (set ys)"
  by (induction ys) auto

lemma insert_by_keeps_order:
  assumes "sorted_wrt (\<lambda>a b. rank_or_99 (inv_status b) \<le> rank_or_99 (inv_status a)) ys"
  shows "sorted_wrt (\<lambda>a b. rank_or_99 (inv_status b) \<le> rank_or_99 (inv_status a))
           (insert_by compare_invoices x ys)"
  using assms
  by (induction ys) (auto simp add: set_insert_by compare_invoices_def)

text \<open>What the handler's order is: the computed rank never rises along the answer.\<close>

lemma sortedInvoices_order:
  "sorted_wrt (\<lambda>a b. rank_or_99 (inv_status b) \<le> rank_or_99 (inv_status a)) (sortedInvoices data)"
  unfolding sortedInvoices_def
  by (induction data) (simp_all add: insert_by_keeps_order)

lemma rank_or_99_values:
  "rank_or_99 ''open'' = 99" "rank_or_99 ''void'' = 4" "rank_or_99 ''paid'' = 3"
  "rank_or_99 ''uncollectible'' = 2" "rank_or_99 ''draft'' = 1" "rank_or_99 ''refunded'' = 99"
  by (simp_all add: rank_or_99_def statusOrder_def)

text \<open>
  Claim C2, at the invoices \<open>paid, open, void, draft\<close>: the comparator subtracts the
  rank of \<open>a\<close> from the rank of \<open>b\<close>, so the higher rank goes first, and \<open>open\<close>,
  whose rank \<open>0\<close> reads as \<open>99\<close>, goes before all: the answer is
  \<open>open, void, paid, draft\<close>, where the table's order is \<open>open, draft, paid, void\<close>.
\<close>

theorem invoices_of_paid_open_void_draft:
  "fst (invoices (Some (sample_gateway ''succeeded'' [] []
          [\<lparr>inv_id = ''in_1'', inv_status = ''paid''\<rparr>, \<lparr>inv_id = ''in_2'', inv_status = ''open''\<rparr>,
           \<lparr>inv_id = ''in_3'', inv_status = ''void''\<rparr>, \<lparr>inv_id = ''in_4'', inv_status = ''draft''\<rparr>]))) =
     \<lparr>status = 200,
      body = InvoicesBody
        [\<lparr>inv_id = ''in_2'', inv_status = ''open''\<rparr>, \<lparr>inv_id = ''in_3'', inv_status = ''void''\<rparr>,
         \<lparr>inv_id = ''in_1'', inv_status = ''paid''\<rparr>, \<lparr>inv_id = ''in_4'', inv_status = ''draft''\<rparr>]\<rparr>"
  by (simp add: invoices_def sample_gateway_def sortedInvoices_def compare_invoices_def
        rank_or_99_def statusOrder_def)

section \<open>A client that was not initialised\<close>

lemma init_stripe_without_key:
  "init_stripe None mk = None" "init_stripe (Some []) mk = None"
  by (simp_all add: init_stripe_def)

lemma guarded_handlers_not_initialized:
  "create_location None lb = (not_initialized, [])"
  "products J None = (not_initialized, [])"
  "create_payment_intent J None ib = (not_initialized, [])"
  "invoices None = (not_initialized, [])"
  "cancel_payment_intent None cb = (not_initialized, [])"
  by (simp_all add: create_location_def products_def create_payment_intent_def invoices_def
        cancel_payment_intent_def)

text \<open>
  Claim C3, at the two handlers that do not check the client: with \<open>stripe\<close>
  undefined, the status handler answers 500 with its own failure message, and the
  webhook handler answers 500 for a missing signing secret and otherwise 400 with the
  message of the \<open>TypeError\<close>. None of the three is the fixed answer of the handlers
  that check.
\<close>

theorem unchecked_handlers_without_client:
  "payment_intent_status None q =
     (\<lparr>status = 500, body = ErrorOnly ''Failed to fetch payment intent status''\<rparr>, [])
   \<and> fst (webhook None None req) = \<lparr>status = 500, body = ErrorOnly ''Webhook secret not configured''\<rparr>
   \<and> fst (webhook (Some ''whsec_1'') None req) =
       \<lparr>status = 400,
        body = ErrorOnly ''Webhook Error: Cannot read properties of undefined (reading 'webhooks')''\<rparr>
   \<and> fst (payment_intent_status None q) \<noteq> not_initialized
   \<and> fst (webhook None None req) \<noteq> not_initialized
   \<and> fst (webhook (Some ''whsec_1'') None req) \<noteq> not_initialized"
  by (simp add: payment_intent_status_def status_failure_def webhook_def constructEvent_def
        not_initialized_def)

section \<open>Creating a location\<close>

lemma location_failure_400:
  "status (location_failure e) = 400 \<longleftrightarrow> code e = Some ''invalid_request_error''"
  by (simp add: location_failure_def)

text \<open>
  Claim C5, as the handler has it: with the client initialised, the answer is 400 exactly
  when one of the six fields is false for JavaScript (absent, \<open>null\<close>, empty, \<open>0\<close>,
  \<open>false\<close>) or the gateway refuses the location with the code
  \<open>invalid_request_error\<close>.
\<close>

theorem create_location_400_iff:
  "status (fst (create_location (Some g) b)) = 400 \<longleftrightarrow>
     falsy (label b) \<or> falsy (line1 b) \<or> falsy (city b) \<or> falsy (state b)
     \<or> falsy (country b) \<or> falsy (postal_code b)
     \<or> (\<exists>e. locations_create g (location_params b) = Inl e \<and> code e = Some ''invalid_request_error'')"
  by (auto simp add: create_location_def location_failure_400 split: sum.splits)

text \<open>
  The claim as it is written fails in both directions: a request with all six fields
  gets 400 when the gateway refuses it, or when a field is the empty string; and a
  request without a field gets 500 when the client is not initialised.
\<close>

theorem create_location_400_with_all_fields:
  "status (fst (create_location
      (Some (failing_gateway \<lparr>code = Some ''invalid_request_error'', message = ''Invalid postal code''\<rparr>))
      sample_location)) = 400
   \<and> label sample_location \<noteq> Undefined \<and> line1 sample_location \<noteq> Undefined
   \<and> city sample_location \<noteq> Undefined \<and> state sample_location \<noteq> Undefined
   \<and> country sample_location \<noteq> Undefined \<and> postal_code sample_location \<noteq> Undefined
   \<and> status (fst (create_location (Some (sample_gateway ''succeeded'' [] [] []))
        (sample_location\<lparr>city := JStr []\<rparr>))) = 400
   \<and> city (sample_location\<lparr>city := JStr []\<rparr>) \<noteq> Undefined
   \<and> status (fst (create_location None (sample_location\<lparr>city := Undefined\<rparr>))) = 500"
  by (simp add: create_location_def location_failure_def failing_gateway_def sample_location_def
      sample_gateway_def not_initialized_def)

section \<open>The webhook\<close>

text \<open>
  The handler by itself, with a signing secret configured: when \<open>constructEvent\<close>
  throws, the answer is 400 with the error's message and the console holds the
  verification error alone, no line of the \<open>switch\<close>; when it returns an event, the
  answer is 200 with \<open>{received: true}\<close> whatever the event's type.
\<close>

lemma webhook_signature_gate:
  assumes "s \<noteq> []"
  shows "(\<forall>err. constructEvent stripe req s = Inl err \<longrightarrow>
            webhook (Some s) stripe req =
              (\<lparr>status = 400, body = ErrorOnly (''Webhook Error: '' @ message err)\<rparr>,
               [LogError (''Webhook signature verification failed: '' @ message err)])
            \<and> (\<forall>ev. dispatch ev \<notin> set (snd (webhook (Some s) stripe req))))
       \<and> (\<forall>ev. constructEvent stripe req s = Inr ev \<longrightarrow>
            webhook (Some s) stripe req = (\<lparr>status = 200, body = Received True\<rparr>, [dispatch ev])
            \<and> (event_type ev \<noteq> ''payment_intent.succeeded'' \<longrightarrow>
                event_type ev \<noteq> ''payment_intent.payment_failed'' \<longrightarrow>
                dispatch ev = LogWarn (''Unhandled event type: '' @ event_type ev)))"
  using assms by (auto simp add: webhook_def dispatch_def)

lemma req_body_is_no_text:
  assumes "req_body ver P r = Inr v"
  shows "\<not> is_text v"
proof -
  have "\<not> is_text (unparsed_body ver)" by (cases ver) simp_all
  moreover have "\<not> is_text (top_value t)" for t by (cases t) simp_all
  ultimately show ?thesis
    using assms
    by (auto simp add: req_body_def split: if_splits media.splits sum.splits)
qed

lemma webhook_status_200:
  assumes "status (fst (webhook secret stripe req)) = 200"
  shows "\<exists>g s ev. stripe = Some g \<and> secret = Some s
           \<and> webhooks_constructEvent g (payload req) (stripe_signature req) s = Inr ev"
  using assms
  by (auto simp add: webhook_def constructEvent_def split: option.splits if_splits sum.splits)

text \<open>
  Claim C6, at a request the gateway has signed: the parsers in front of the route leave
  an object, an array or nothing as \<open>req.body\<close>, never the text that was signed. So,
  with a client library that refuses a payload that is not text, no request is answered
  200; and a request of type \<open>application/json\<close> whose body reads as an object, with
  the signing secret configured, is answered 400 with the library's error, whatever
  its signature and its event type.
\<close>

theorem webhook_route_never_acknowledges:
  assumes "\<forall>v sg sc. \<not> is_text v \<longrightarrow> isl (webhooks_constructEvent g v sg sc)"
  shows "status (fst (webhook_route ver P node_env secret (Some g) r)) \<noteq> 200
       \<and> (\<forall>s kvs. secret = Some s \<and> s \<noteq> [] \<and> has_body r \<and> media r = JsonMedia
              \<and> content r \<noteq> [] \<and> parse_json P (content r) = Inr (TopObj kvs) \<longrightarrow>
            (\<exists>e. webhooks_constructEvent g (JObj kvs) (signature r) s = Inl e
               \<and> webhook_route ver P node_env secret (Some g) r =
                   (\<lparr>status = 400, body = ErrorOnly (''Webhook Error: '' @ message e)\<rparr>,
                    [LogError (''Webhook signature verification failed: '' @ message e)])))"
proof (intro conjI allI impI)
  show "status (fst (webhook_route ver P node_env secret (Some g) r)) \<noteq> 200"
  proof (cases "req_body ver P r")
    case (Inl e)
    then show ?thesis
      by (simp add: webhook_route_def error_handler_def)
  next
    case (Inr v)
    let ?req = "\<lparr>payload = v, stripe_signature = signature r\<rparr>"
    show ?thesis
    proof
      assume "status (fst (webhook_route ver P node_env secret (Some g) r)) = 200"
      with Inr have "status (fst (webhook secret (Some g) ?req)) = 200"
        by (simp add: webhook_route_def)
      from webhook_status_200 [OF this] obtain s ev where
        "webhooks_constructEvent g v (signature r) s = Inr ev"
        by auto
      moreover from req_body_is_no_text [OF Inr] assms
      have "isl (webhooks_constructEvent g v (signature r) s)"
        by simp
      ultimately show False by simp
    qed
  qed
next
  fix s kvs
  assume h: "secret = Some s \<and> s \<noteq> [] \<and> has_body r \<and> media r = JsonMedia
              \<and> content r \<noteq> [] \<and> parse_json P (content r) = Inr (TopObj kvs)"
  then have body: "req_body ver P r = Inr (JObj kvs)"
    by (simp add: req_body_def)
  from assms have "isl (webhooks_constructEvent g (JObj kvs) (signature r) s)"
    by simp
  then obtain e where e: "webhooks_constructEvent g (JObj kvs) (signature r) s = Inl e"
    by (cases "webhooks_constructEvent g (JObj kvs) (signature r) s") simp_all
  with h body have "webhook_route ver P node_env secret (Some g) r =
                   (\<lparr>status = 400, body = ErrorOnly (''Webhook Error: '' @ message e)\<rparr>,
                    [LogError (''Webhook signature verification failed: '' @ message e)])"
    by (simp add: webhook_route_def webhook_def constructEvent_def)
  with e show "\<exists>e. webhooks_constructEvent g (JObj kvs) (signature r) s = Inl e
               \<and> webhook_route ver P node_env secret (Some g) r =
                   (\<lparr>status = 400, body = ErrorOnly (''Webhook Error: '' @ message e)\<rparr>,
                    [LogError (''Webhook signature verification failed: '' @ message e)])"
    by (intro exI [of _ e] conjI)
qed

theorem signed_refund_event_is_refused:
  "webhook_route Express4 sample_parsers None (Some ''whsec_1'')
      (Some (sample_gateway ''succeeded'' [] [] [])) sample_hook =
     (\<lparr>status = 400,
       body = ErrorOnly ''Webhook Error: Webhook payload must be provided as a string or a Buffer''\<rparr>,
      [LogError ''Webhook signature verification failed: Webhook payload must be provided as a string or a Buffer''])
   \<and> webhooks_constructEvent (sample_gateway ''succeeded'' [] [] []) (JStr sample_text)
        (signature sample_hook) ''whsec_1'' = Inr \<lparr>event_type = ''charge.refunded''\<rparr>"
proof -
  let ?g = "sample_gateway ''succeeded'' [] [] []"
  let ?kvs = "[(''type'', JStr ''charge.refunded'')]"
  let ?msg = "''Webhook payload must be provided as a string or a Buffer''"
  have lib: "\<forall>v sg sc. \<not> is_text v \<longrightarrow> isl (webhooks_constructEvent ?g v sg sc)"
    by (simp add: sample_gateway_def)
  have req: "Some ''whsec_1'' = Some ''whsec_1'' \<and> ''whsec_1'' \<noteq> [] \<and> has_body sample_hook
      \<and> media sample_hook = JsonMedia \<and> content sample_hook \<noteq> []
      \<and> parse_json sample_parsers (content sample_hook) = Inr (TopObj ?kvs)"
    by (simp add: sample_hook_def sample_parsers_def sample_text_def)
  from webhook_route_never_acknowledges
         [OF lib, of Express4 sample_parsers None "Some ''whsec_1''" sample_hook,
          THEN conjunct2, rule_format, OF req]
  obtain e where e: "webhooks_constructEvent ?g (JObj ?kvs) (signature sample_hook) ''whsec_1'' = Inl e"
    and route: "webhook_route Express4 sample_parsers None (Some ''whsec_1'') (Some ?g) sample_hook =
        (\<lparr>status = 400, body = ErrorOnly (''Webhook Error: '' @ message e)\<rparr>,
         [LogError (''Webhook signature verification failed: '' @ message e)])"
    by (elim exE conjE)
  from e have "message e = ?msg"
    by (auto simp add: sample_gateway_def)
  with route have a: "webhook_route Express4 sample_parsers None (Some ''whsec_1'') (Some ?g) sample_hook =
     (\<lparr>status = 400, body = ErrorOnly (''Webhook Error: '' @ ?msg)\<rparr>,
      [LogError (''Webhook signature verification failed: '' @ ?msg)])"
    by simp
  have b: "webhooks_constructEvent ?g (JStr sample_text) (signature sample_hook) ''whsec_1'' =
      Inr \<lparr>event_type = ''charge.refunded''\<rparr>"
    by (simp add: sample_gateway_def sample_hook_def)
  from a b show ?thesis by simp
qed

section \<open>Listing products\<close>

lemma price_matches_iff:
  "price_matches pr p \<longleftrightarrow>
     price_product p = prod_id pr \<and> (\<exists>u. price_unit_amount p = Some u \<and> u \<noteq> 0)"
  by (auto simp add: price_matches_def split: option.splits)

lemma productMap_found:
  assumes "find (price_matches pr) qs = Some q"
  shows "\<exists>u. price_unit_amount q = Some u \<and> u \<noteq> 0
           \<and> pe_price (productMap J qs pr) = div100 J (Fin (of_int u))
           \<and> pe_currency (productMap J qs pr) = price_currency q"
proof -
  from assms have "price_matches pr q"
    by (auto simp add: find_Some_iff)
  then obtain u where "price_unit_amount q = Some u" "u \<noteq> 0"
    by (auto simp add: price_matches_iff)
  with assms show ?thesis
    by (simp add: productMap_def unit_amount_div100_def)
qed

lemma productMap_not_found:
  assumes "find (price_matches pr) qs = None"
  shows "pe_price (productMap J qs pr) = Fin 0 \<and> pe_currency (productMap J qs pr) = ''usd''"
  using assms by (simp add: productMap_def)

lemma productMap_id: "pe_id (productMap J qs pr) = prod_id pr"
  by (simp add: productMap_def Let_def)

lemma productMap_price:
  "(\<exists>k u. k < length qs \<and> price_product (qs ! k) = prod_id pr
        \<and> price_unit_amount (qs ! k) = Some u \<and> u \<noteq> 0
        \<and> (\<forall>j<k. \<not> (price_product (qs ! j) = prod_id pr
                      \<and> (\<exists>v. price_unit_amount (qs ! j) = Some v \<and> v \<noteq> 0)))
        \<and> pe_price (productMap J qs pr) = div100 J (Fin (of_int u))
        \<and> pe_currency (productMap J qs pr) = price_currency (qs ! k))
   \<or> ((\<forall>q\<in>set qs. \<not> (price_product q = prod_id pr
                      \<and> (\<exists>v. price_unit_amount q = Some v \<and> v \<noteq> 0)))
        \<and> pe_price (productMap J qs pr) = Fin 0
        \<and> pe_currency (productMap J qs pr) = ''usd'')"
proof (cases "find (price_matches pr) qs")
  case None
  then have "\<forall>q\<in>set qs. \<not> price_matches pr q"
    by (simp add: find_None_iff)
  with productMap_not_found [OF None, of J] show ?thesis
    by (simp add: price_matches_iff)
next
  case (Some q)
  then obtain k where k: "k < length qs" "price_matches pr (qs ! k)" "q = qs ! k"
    "\<forall>j<k. \<not> price_matches pr (qs ! j)"
    by (auto simp add: find_Some_iff)
  from productMap_found [OF Some, of J] obtain u where
    "price_unit_amount q = Some u" "u \<noteq> 0"
    "pe_price (productMap J qs pr) = div100 J (Fin (of_int u))"
    "pe_currency (productMap J qs pr) = price_currency q"
    by blast
  with k have "k < length qs \<and> price_product (qs ! k) = prod_id pr
        \<and> price_unit_amount (qs ! k) = Some u \<and> u \<noteq> 0
        \<and> (\<forall>j<k. \<not> (price_product (qs ! j) = prod_id pr
                      \<and> (\<exists>v. price_unit_amount (qs ! j) = Some v \<and> v \<noteq> 0)))
        \<and> pe_price (productMap J qs pr) = div100 J (Fin (of_int u))
        \<and> pe_currency (productMap J qs pr) = price_currency (qs ! k)"
    by (simp add: price_matches_iff)
  then show ?thesis by blast
qed

text \<open>
  Claim C7, as the handler has it: the answer has one entry for each product, in order.
  Its price is the unit amount, divided by 100, of the first listed price whose product
  is the product's id and whose unit amount is set and not zero, and its currency is that
  price's; when no listed price is such a one, the price is 0 and the currency is
  \<open>usd\<close>.
\<close>

theorem products_price_of_first_nonzero_match:
  assumes "products_list g (list_params 100) = Inr ps"
    and "prices_list g (list_params 100) = Inr qs"
  shows "\<exists>es. fst (products J (Some g)) = \<lparr>status = 200, body = ProductsBody es\<rparr>
     \<and> length es = length ps
     \<and> (\<forall>i<length ps.
          pe_id (es ! i) = prod_id (ps ! i)
          \<and> ((\<exists>k u. k < length qs \<and> price_product (qs ! k) = prod_id (ps ! i)
                \<and> price_unit_amount (qs ! k) = Some u \<and> u \<noteq> 0
                \<and> (\<forall>j<k. \<not> (price_product (qs ! j) = prod_id (ps ! i)
                              \<and> (\<exists>v. price_unit_amount (qs ! j) = Some v \<and> v \<noteq> 0)))
                \<and> pe_price (es ! i) = div100 J (Fin (of_int u))
                \<and> pe_currency (es ! i) = price_currency (qs ! k))
              \<or> ((\<forall>q\<in>set qs. \<not> (price_product q = prod_id (ps ! i)
                              \<and> (\<exists>v. price_unit_amount q = Some v \<and> v \<noteq> 0)))
                \<and> pe_price (es ! i) = Fin 0
                \<and> pe_currency (es ! i) = ''usd'')))"
proof -
  let ?es = "map (productMap J qs) ps"
  from assms have "fst (products J (Some g)) = \<lparr>status = 200, body = ProductsBody ?es\<rparr>"
    by (simp add: products_def)
  moreover have "length ?es = length ps" by simp
  moreover have "\<forall>i<length ps.
          pe_id (?es ! i) = prod_id (ps ! i)
          \<and> ((\<exists>k u. k < length qs \<and> price_product (qs ! k) = prod_id (ps ! i)
                \<and> price_unit_amount (qs ! k) = Some u \<and> u \<noteq> 0
                \<and> (\<forall>j<k. \<not> (price_product (qs ! j) = prod_id (ps ! i)
                              \<and> (\<exists>v. price_unit_amount (qs ! j) = Some v \<and> v \<noteq> 0)))
                \<and> pe_price (?es ! i) = div100 J (Fin (of_int u))
                \<and> pe_currency (?es ! i) = price_currency (qs ! k))
              \<or> ((\<forall>q\<in>set qs. \<not> (price_product q = prod_id (ps ! i)
                              \<and> (\<exists>v. price_unit_amount q = Some v \<and> v \<noteq> 0)))
                \<and> pe_price (?es ! i) = Fin 0
                \<and> pe_currency (?es ! i) = ''usd''))"
    using productMap_price [of qs _ J] by (simp add: productMap_id)
  ultimately show ?thesis by blast
qed

theorem products_price_examples:
  "\<exists>es. fst (products sample_engine (Some (sample_gateway ''succeeded'' [tea, mug] [tea_free, tea_paid] [])))
           = \<lparr>status = 200, body = ProductsBody es\<rparr>
     \<and> map pe_price es = [Fin 5, Fin 0]
     \<and> map pe_currency es = [''gbp'', ''usd'']"
proof -
  let ?g = "sample_gateway ''succeeded'' [tea, mug] [tea_free, tea_paid] []"
  have ps: "products_list ?g (list_params 100) = Inr [tea, mug]"
    and qs: "prices_list ?g (list_params 100) = Inr [tea_free, tea_paid]"
    by (simp_all add: sample_gateway_def)
  from products_price_of_first_nonzero_match [OF ps qs, of sample_engine] obtain es where
    es: "fst (products sample_engine (Some ?g)) = \<lparr>status = 200, body = ProductsBody es\<rparr>"
    by (elim exE conjE)
  have "fst (products sample_engine (Some ?g)) =
      \<lparr>status = 200, body = ProductsBody (map (productMap sample_engine [tea_free, tea_paid]) [tea, mug])\<rparr>"
    by (simp add: products_def sample_gateway_def)
  with es have "es = map (productMap sample_engine [tea_free, tea_paid]) [tea, mug]"
    by simp
  then have "map pe_price es = [Fin 5, Fin 0] \<and> map pe_currency es = [''gbp'', ''usd'']"
    by (simp add: productMap_def price_matches_def unit_amount_div100_def sample_engine_def
        tea_def mug_def tea_free_def tea_paid_def)
  with es show ?thesis by (intro exI [of _ es]) simp
qed

text \<open>
  The claim as it is written counts a unit amount of zero as set. For a product whose
  first price is free and whose second costs 500, its wording picks the free price; the
  handler skips it and answers 5 in the second price's currency. With the free price
  alone, the handler answers the default currency, not the price's.
\<close>

theorem zero_unit_amount_is_skipped:
  "spec_first_price [tea_free, tea_paid] tea = Some tea_free
   \<and> price_unit_amount tea_free = Some 0
   \<and> price_currency tea_free = ''eur''
   \<and> fst (products sample_engine (Some (sample_gateway ''succeeded'' [tea] [tea_free, tea_paid] []))) =
       \<lparr>status = 200,
        body = ProductsBody
          [\<lparr>pe_id = ''prod_tea'', pe_name = ''Tea'', pe_description = None, pe_price = Fin 5,
            pe_currency = ''gbp'', pe_priceId = Some ''price_paid'', pe_image = ''tea.png''\<rparr>]\<rparr>
   \<and> fst (products sample_engine (Some (sample_gateway ''succeeded'' [tea] [tea_free] []))) =
       \<lparr>status = 200,
        body = ProductsBody
          [\<lparr>pe_id = ''prod_tea'', pe_name = ''Tea'', pe_description = None, pe_price = Fin 0,
            pe_currency = ''usd'', pe_priceId = None, pe_image = ''tea.png''\<rparr>]\<rparr>"
  by (simp add: spec_first_price_def tea_free_def tea_paid_def tea_def products_def
      sample_gateway_def sample_engine_def productMap_def price_matches_def unit_amount_div100_def)

section \<open>Creating a payment intent\<close>

lemma intent_call_shape:
  assumes "PaymentIntentsCreate p \<in> set (snd (create_payment_intent J stripe b))"
  shows "\<exists>g name email c. stripe = Some g
           \<and> destructure_name_email (metadata b) = Inr (name, email)
           \<and> \<not> falsy name \<and> \<not> falsy email
           \<and> \<not> falsy (amount b) \<and> \<not> le_zero (to_number J (amount b))
           \<and> customers_create g (customer_params name email) = Inr c
           \<and> p = intent_params J b name email c
           \<and> snd (create_payment_intent J stripe b) =
                [CustomersCreate (customer_params name email), PaymentIntentsCreate p]"
  using assms
  by (auto simp add: create_payment_intent_def split: option.splits sum.splits prod.splits if_splits)

lemma destructure_truthy_name:
  assumes "destructure_name_email m = Inr (name, email)" and "\<not> falsy name"
  shows "\<exists>kvs. m = JObj kvs \<and> name = lookup kvs ''name'' \<and> email = lookup kvs ''email''"
  using assms by (cases m) auto

lemma status_intent_failure: "status (intent_failure e) \<noteq> 200"
  by (simp add: intent_failure_def)

lemma success_issues_intent:
  assumes "status (fst (create_payment_intent J stripe b)) = 200"
  shows "\<exists>p. PaymentIntentsCreate p \<in> set (snd (create_payment_intent J stripe b))"
  using assms
  by (auto simp add: create_payment_intent_def status_intent_failure not_initialized_def
      split: option.splits sum.splits prod.splits if_splits)

lemma variant_calls:
  "snd (create_payment_intent_variant capture J stripe b) = [] \<or>
   snd (create_payment_intent_variant capture J stripe b) =
     [PaymentIntentsCreate (variant_params capture J b)]"
  by (auto simp add: create_payment_intent_variant_def Let_def split: option.splits sum.splits)

lemma math_round_1250: "math_round (Fin 1250) = Fin 1250"
proof -
  have "\<lfloor>(1250::rat) + 1 / 2\<rfloor> = 1250" by linarith
  then show ?thesis by (simp del: floor_add_int floor_numeral)
qed

lemma main_rejects:
  assumes "destructure_name_email (metadata b) = Inr (name, email)"
    and "\<not> falsy name" and "\<not> falsy email"
    and "falsy (amount b) \<or> le_zero (to_number J (amount b))"
  shows "create_payment_intent J (Some g) b =
           (\<lparr>status = 400, body = ErrorOnly ''Valid amount is required (must be greater than 0)''\<rparr>, [])"
  using assms by (auto simp add: create_payment_intent_def)

lemma main_passes:
  assumes "destructure_name_email (metadata b) = Inr (name, email)"
    and "\<not> falsy name" and "\<not> falsy email"
    and "\<not> falsy (amount b)" and "\<not> le_zero (to_number J (amount b))"
  shows "\<exists>rest. snd (create_payment_intent J (Some g) b) =
           CustomersCreate (customer_params name email) # rest"
  using assms by (auto simp add: create_payment_intent_def split: sum.splits)

lemma main_accepts:
  assumes "destructure_name_email (metadata b) = Inr (name, email)"
    and "\<not> falsy name" and "\<not> falsy email"
    and "\<not> falsy (amount b)" and "\<not> le_zero (to_number J (amount b))"
    and "customers_create g (customer_params name email) = Inr c"
  shows "snd (create_payment_intent J (Some g) b) =
           [CustomersCreate (customer_params name email),
            PaymentIntentsCreate (intent_params J b name email c)]"
  using assms by (auto simp add: create_payment_intent_def split: sum.splits)

lemma variant_rejects:
  assumes "not_finite (to_number J (amount b)) \<or> le_zero (to_number J (amount b))"
  shows "create_payment_intent_variant capture J stripe b =
           (\<lparr>status = 400, body = ErrorOnly ''Invalid amount provided.''\<rparr>, [])"
  using assms by (auto simp add: create_payment_intent_variant_def)

lemma variant_accepts:
  assumes "\<not> not_finite (to_number J (amount b))" and "\<not> le_zero (to_number J (amount b))"
  shows "snd (create_payment_intent_variant capture J (Some g) b) =
           [PaymentIntentsCreate (variant_params capture J b)]"
  using assms by (auto simp add: create_payment_intent_variant_def split: sum.splits)

lemma forwarded_amount_main:
  assumes "PaymentIntentsCreate p \<in> set (snd (create_payment_intent J stripe b))"
  shows "param p ''amount'' = JNum (math_round (times100 J (to_number J (amount b))))"
proof -
  from intent_call_shape [OF assms] obtain name email c where
    "p = intent_params J b name email c" by blast
  then show ?thesis by (simp add: intent_params_def lookup_def)
qed

lemma forwarded_amount_variant:
  assumes "PaymentIntentsCreate p \<in> set (snd (create_payment_intent_variant capture J stripe b))"
  shows "param p ''amount'' = JNum (math_round (times100 J (to_number J (amount b))))"
  using assms variant_calls [of capture J stripe b]
  by (auto simp add: variant_params_def lookup_def)

text \<open>For an amount that is a number, the server's check rejects \<open>NaN\<close> and what is not above zero.\<close>

lemma number_rejected_iff:
  "(falsy (JNum n) \<or> le_zero (to_number J (JNum n))) = (n = NaN \<or> le_zero n)"
  by (cases n) auto

lemma sample_destructure:
  "destructure_name_email sample_metadata = Inr (JStr ''Ann'', JStr ''ann@example.com'')"
  by (simp add: sample_metadata_def lookup_def)

text \<open>
  Claim C4, as the handlers have it, for any \<open>amount\<close> of the body; \<open>n\<close> is the
  number it converts to. The server's handler, once the client is there and
  \<open>metadata\<close> has a name and an email, answers 400 without a gateway call when the
  amount is false for JavaScript or \<open>n <= 0\<close>: for an amount that is a number, when it
  is \<open>NaN\<close>, zero, negative or \<open>-Infinity\<close>. Every other amount passes its check
  and a customer is created: also \<open>Infinity\<close>, and also a text or an object whose
  \<open>n\<close> is \<open>NaN\<close>. The other two servers' handlers answer 400 when \<open>n\<close> is not
  finite or \<open>n <= 0\<close>, whatever the client; with the client there, every other
  amount is forwarded. Every call that creates an intent, in all three, carries
  \<open>Math.round(n * 100)\<close> as its amount.
\<close>

theorem create_payment_intent_amount:
  "(\<forall>g name email.
      destructure_name_email (metadata b) = Inr (name, email) \<and> \<not> falsy name \<and> \<not> falsy email
      \<and> (falsy (amount b) \<or> le_zero (to_number J (amount b))) \<longrightarrow>
      create_payment_intent J (Some g) b =
        (\<lparr>status = 400, body = ErrorOnly ''Valid amount is required (must be greater than 0)''\<rparr>, []))
   \<and> (\<forall>n. amount b = JNum n \<longrightarrow>
        (falsy (amount b) \<or> le_zero (to_number J (amount b))) = (n = NaN \<or> le_zero n))
   \<and> (\<forall>g name email.
        destructure_name_email (metadata b) = Inr (name, email) \<and> \<not> falsy name \<and> \<not> falsy email
        \<and> \<not> falsy (amount b) \<and> \<not> le_zero (to_number J (amount b)) \<longrightarrow>
        (\<exists>rest. snd (create_payment_intent J (Some g) b) =
                  CustomersCreate (customer_params name email) # rest)
        \<and> (\<forall>c. customers_create g (customer_params name email) = Inr c \<longrightarrow>
              (\<exists>p. snd (create_payment_intent J (Some g) b) =
                      [CustomersCreate (customer_params name email), PaymentIntentsCreate p])))
   \<and> (not_finite (to_number J (amount b)) \<or> le_zero (to_number J (amount b)) \<longrightarrow>
        create_payment_intent_manual J stripe b =
          (\<lparr>status = 400, body = ErrorOnly ''Invalid amount provided.''\<rparr>, [])
        \<and> create_payment_intent_serverless J stripe b =
          (\<lparr>status = 400, body = ErrorOnly ''Invalid amount provided.''\<rparr>, []))
   \<and> (\<forall>g. \<not> not_finite (to_number J (amount b)) \<and> \<not> le_zero (to_number J (amount b)) \<longrightarrow>
        (\<exists>p. snd (create_payment_intent_manual J (Some g) b) = [PaymentIntentsCreate p])
        \<and> (\<exists>p. snd (create_payment_intent_serverless J (Some g) b) = [PaymentIntentsCreate p]))
   \<and> (\<forall>p. PaymentIntentsCreate p \<in> set (snd (create_payment_intent J stripe b))
            \<or> PaymentIntentsCreate p \<in> set (snd (create_payment_intent_manual J stripe b))
            \<or> PaymentIntentsCreate p \<in> set (snd (create_payment_intent_serverless J stripe b)) \<longrightarrow>
        param p ''amount'' = JNum (math_round (times100 J (to_number J (amount b)))))"
proof (intro conjI allI impI)
  fix g :: gateway and name email
  assume "destructure_name_email (metadata b) = Inr (name, email) \<and> \<not> falsy name \<and> \<not> falsy email
      \<and> (falsy (amount b) \<or> le_zero (to_number J (amount b)))"
  then show "create_payment_intent J (Some g) b =
        (\<lparr>status = 400, body = ErrorOnly ''Valid amount is required (must be greater than 0)''\<rparr>, [])"
    by (intro main_rejects [of b name email]) simp_all
next
  fix n
  assume "amount b = JNum n"
  then show "(falsy (amount b) \<or> le_zero (to_number J (amount b))) = (n = NaN \<or> le_zero n)"
    by (simp only: number_rejected_iff)
next
  fix g :: gateway and name email
  assume "destructure_name_email (metadata b) = Inr (name, email) \<and> \<not> falsy name \<and> \<not> falsy email
        \<and> \<not> falsy (amount b) \<and> \<not> le_zero (to_number J (amount b))"
  then show "\<exists>rest. snd (create_payment_intent J (Some g) b) =
                  CustomersCreate (customer_params name email) # rest"
    by (intro main_passes) simp_all
next
  fix g :: gateway and name email c
  assume "destructure_name_email (metadata b) = Inr (name, email) \<and> \<not> falsy name \<and> \<not> falsy email
        \<and> \<not> falsy (amount b) \<and> \<not> le_zero (to_number J (amount b))"
    and "customers_create g (customer_params name email) = Inr c"
  then have "snd (create_payment_intent J (Some g) b) =
           [CustomersCreate (customer_params name email),
            PaymentIntentsCreate (intent_params J b name email c)]"
    by (intro main_accepts) simp_all
  then show "\<exists>p. snd (create_payment_intent J (Some g) b) =
                  [CustomersCreate (customer_params name email), PaymentIntentsCreate p]"
    by blast
next
  assume "not_finite (to_number J (amount b)) \<or> le_zero (to_number J (amount b))"
  then show "create_payment_intent_manual J stripe b =
            (\<lparr>status = 400, body = ErrorOnly ''Invalid amount provided.''\<rparr>, [])"
    unfolding create_payment_intent_manual_def by (rule variant_rejects)
next
  assume "not_finite (to_number J (amount b)) \<or> le_zero (to_number J (amount b))"
  then show "create_payment_intent_serverless J stripe b =
            (\<lparr>status = 400, body = ErrorOnly ''Invalid amount provided.''\<rparr>, [])"
    unfolding create_payment_intent_serverless_def by (rule variant_rejects)
next
  fix g :: gateway
  assume "\<not> not_finite (to_number J (amount b)) \<and> \<not> le_zero (to_number J (amount b))"
  then show "\<exists>p. snd (create_payment_intent_manual J (Some g) b) = [PaymentIntentsCreate p]"
    unfolding create_payment_intent_manual_def by (simp add: variant_accepts)
next
  fix g :: gateway
  assume "\<not> not_finite (to_number J (amount b)) \<and> \<not> le_zero (to_number J (amount b))"
  then show "\<exists>p. snd (create_payment_intent_serverless J (Some g) b) = [PaymentIntentsCreate p]"
    unfolding create_payment_intent_serverless_def by (simp add: variant_accepts)
next
  fix p
  assume "PaymentIntentsCreate p \<in> set (snd (create_payment_intent J stripe b))
            \<or> PaymentIntentsCreate p \<in> set (snd (create_payment_intent_manual J stripe b))
            \<or> PaymentIntentsCreate p \<in> set (snd (create_payment_intent_serverless J stripe b))"
  then show "param p ''amount'' = JNum (math_round (times100 J (to_number J (amount b))))"
    unfolding create_payment_intent_manual_def create_payment_intent_serverless_def
    using forwarded_amount_main forwarded_amount_variant by blast
qed

theorem create_payment_intent_amount_examples:
  "create_payment_intent sample_engine (Some (sample_gateway ''succeeded'' [] [] []))
      \<lparr>amount = JNum (Fin (- 5)), metadata = sample_metadata\<rparr> =
     (\<lparr>status = 400, body = ErrorOnly ''Valid amount is required (must be greater than 0)''\<rparr>, [])
   \<and> create_payment_intent sample_engine (Some (sample_gateway ''succeeded'' [] [] []))
      \<lparr>amount = Undefined, metadata = sample_metadata\<rparr> =
     (\<lparr>status = 400, body = ErrorOnly ''Valid amount is required (must be greater than 0)''\<rparr>, [])
   \<and> create_payment_intent_serverless sample_engine (Some (sample_gateway ''succeeded'' [] [] []))
      \<lparr>amount = JNum PosInf, metadata = sample_metadata\<rparr> =
     (\<lparr>status = 400, body = ErrorOnly ''Invalid amount provided.''\<rparr>, [])
   \<and> create_payment_intent_manual sample_engine None
      \<lparr>amount = JStr ''abc'', metadata = sample_metadata\<rparr> =
     (\<lparr>status = 400, body = ErrorOnly ''Invalid amount provided.''\<rparr>, [])
   \<and> PaymentIntentsCreate
        (intent_params sample_engine sample_request (JStr ''Ann'') (JStr ''ann@example.com'')
           \<lparr>cust_id = ''cus_1''\<rparr>)
      \<in> set (snd (create_payment_intent sample_engine (Some (sample_gateway ''succeeded'' [] [] []))
                 sample_request))
   \<and> param (intent_params sample_engine sample_request (JStr ''Ann'') (JStr ''ann@example.com'')
              \<lparr>cust_id = ''cus_1''\<rparr>) ''amount'' = JNum (Fin 1250)"
proof -
  let ?g = "sample_gateway ''succeeded'' [] [] []"
  let ?neg = "\<lparr>amount = JNum (Fin (- 5)), metadata = sample_metadata\<rparr>"
  let ?none = "\<lparr>amount = Undefined, metadata = sample_metadata\<rparr>"
  let ?inf = "\<lparr>amount = JNum PosInf, metadata = sample_metadata\<rparr>"
  let ?abc = "\<lparr>amount = JStr ''abc'', metadata = sample_metadata\<rparr>"
  let ?p = "intent_params sample_engine sample_request (JStr ''Ann'') (JStr ''ann@example.com'')
              \<lparr>cust_id = ''cus_1''\<rparr>"
  have a: "create_payment_intent sample_engine (Some ?g) ?neg =
     (\<lparr>status = 400, body = ErrorOnly ''Valid amount is required (must be greater than 0)''\<rparr>, [])"
    by (rule create_payment_intent_amount [THEN conjunct1, rule_format,
          of _ "JStr ''Ann''" "JStr ''ann@example.com''"])
       (simp add: sample_destructure)
  have a': "create_payment_intent sample_engine (Some ?g) ?none =
     (\<lparr>status = 400, body = ErrorOnly ''Valid amount is required (must be greater than 0)''\<rparr>, [])"
    by (rule create_payment_intent_amount [THEN conjunct1, rule_format,
          of _ "JStr ''Ann''" "JStr ''ann@example.com''"])
       (simp add: sample_destructure)
  have b: "create_payment_intent_serverless sample_engine (Some ?g) ?inf =
     (\<lparr>status = 400, body = ErrorOnly ''Invalid amount provided.''\<rparr>, [])"
    using create_payment_intent_amount [of ?inf sample_engine "Some ?g"] by simp
  have b': "create_payment_intent_manual sample_engine None ?abc =
     (\<lparr>status = 400, body = ErrorOnly ''Invalid amount provided.''\<rparr>, [])"
    using create_payment_intent_amount [of ?abc sample_engine None]
    by (simp add: sample_engine_def)
  have c: "PaymentIntentsCreate ?p \<in> set (snd (create_payment_intent sample_engine (Some ?g) sample_request))"
    by (simp add: create_payment_intent_def sample_request_def sample_destructure
        sample_gateway_def customer_params_def)
  have "param ?p ''amount'' =
      JNum (math_round (times100 sample_engine (to_number sample_engine (amount sample_request))))"
    by (rule create_payment_intent_amount
          [of sample_request sample_engine "Some ?g", THEN conjunct2, THEN conjunct2,
           THEN conjunct2, THEN conjunct2, THEN conjunct2, rule_format])
       (rule disjI1, rule c)
  then have d: "param ?p ''amount'' = JNum (Fin 1250)"
    by (simp add: sample_request_def sample_engine_def math_round_1250 del: math_round.simps)
  show ?thesis by (intro conjI a a' b b' c d)
qed

text \<open>
  The claim as it is written fails in the server's handler at \<open>Infinity\<close>, and at an
  amount such as the text \<open>abc\<close>, whose number is \<open>NaN\<close>: the amount is neither
  false nor \<open><= 0\<close>, so the handler goes on to create the customer, and the answer is
  the gateway's doing: 500 when the gateway cannot be reached, 200 when it accepts, the
  intent being asked for with the amount \<open>Infinity\<close> or \<open>NaN\<close>.
\<close>

theorem infinite_amount_is_not_rejected:
  "create_payment_intent sample_engine (Some (failing_gateway conn_error))
      \<lparr>amount = JNum PosInf, metadata = sample_metadata\<rparr> =
     (\<lparr>status = 500,
       body = ErrorDetails ''Failed to create payment intent''
                ''An error occurred with our connection to Stripe.''\<rparr>,
      [CustomersCreate (JObj [(''email'', JStr ''ann@example.com''), (''name'', JStr ''Ann'')])])
   \<and> fst (create_payment_intent sample_engine (Some (sample_gateway ''succeeded'' [] [] []))
        \<lparr>amount = JNum PosInf, metadata = sample_metadata\<rparr>) =
       \<lparr>status = 200, body = IntentCreated ''pi_1'' (Some ''pi_1_secret'')\<rparr>
   \<and> not_finite PosInf
   \<and> param (intent_params sample_engine \<lparr>amount = JNum PosInf, metadata = sample_metadata\<rparr>
        (JStr ''Ann'') (JStr ''ann@example.com'') \<lparr>cust_id = ''cus_1''\<rparr>) ''amount'' = JNum PosInf
   \<and> create_payment_intent sample_engine (Some (sample_gateway ''succeeded'' [] [] []))
        \<lparr>amount = JStr ''abc'', metadata = sample_metadata\<rparr> =
       (\<lparr>status = 200, body = IntentCreated ''pi_1'' (Some ''pi_1_secret'')\<rparr>,
        [CustomersCreate (JObj [(''email'', JStr ''ann@example.com''), (''name'', JStr ''Ann'')]),
         PaymentIntentsCreate
           (intent_params sample_engine \<lparr>amount = JStr ''abc'', metadata = sample_metadata\<rparr>
              (JStr ''Ann'') (JStr ''ann@example.com'') \<lparr>cust_id = ''cus_1''\<rparr>)])
   \<and> to_number sample_engine (JStr ''abc'') = NaN
   \<and> param (intent_params sample_engine \<lparr>amount = JStr ''abc'', metadata = sample_metadata\<rparr>
        (JStr ''Ann'') (JStr ''ann@example.com'') \<lparr>cust_id = ''cus_1''\<rparr>) ''amount'' = JNum NaN"
  by (simp add: create_payment_intent_def failing_gateway_def sample_gateway_def conn_error_def
      sample_metadata_def lookup_def intent_failure_def customer_params_def sample_engine_def
      intent_params_def)

text \<open>
  Claim C8, as the handlers have it. In the server's handler a request that succeeds has
  issued the call that creates the intent; and whenever that call is issued, the calls
  are exactly the creation of a customer, which the gateway answered with a customer,
  followed by the creation of the intent, whose \<open>customer\<close> is the id of that
  answer. No call looks a customer up. The other two servers' handlers create no
  customer.
\<close>

theorem customer_created_before_intent:
  "(status (fst (create_payment_intent J stripe b)) = 200 \<longrightarrow>
      (\<exists>p. PaymentIntentsCreate p \<in> set (snd (create_payment_intent J stripe b))))
   \<and> (\<forall>p. PaymentIntentsCreate p \<in> set (snd (create_payment_intent J stripe b)) \<longrightarrow>
        (\<exists>g name email c. stripe = Some g
           \<and> destructure_name_email (metadata b) = Inr (name, email)
           \<and> customers_create g (customer_params name email) = Inr c
           \<and> snd (create_payment_intent J stripe b) =
                [CustomersCreate (customer_params name email), PaymentIntentsCreate p]
           \<and> param p ''customer'' = JStr (cust_id c)))
   \<and> (\<forall>q. CustomersCreate q \<notin> set (snd (create_payment_intent_manual J stripe b))
          \<and> CustomersCreate q \<notin> set (snd (create_payment_intent_serverless J stripe b)))"
proof (intro conjI allI impI)
  assume "status (fst (create_payment_intent J stripe b)) = 200"
  then show "\<exists>p. PaymentIntentsCreate p \<in> set (snd (create_payment_intent J stripe b))"
    by (rule success_issues_intent)
next
  fix p
  assume "PaymentIntentsCreate p \<in> set (snd (create_payment_intent J stripe b))"
  from intent_call_shape [OF this] obtain g name email c where
    "stripe = Some g" "destructure_name_email (metadata b) = Inr (name, email)"
    "customers_create g (customer_params name email) = Inr c"
    "p = intent_params J b name email c"
    "snd (create_payment_intent J stripe b) =
       [CustomersCreate (customer_params name email), PaymentIntentsCreate p]"
    by blast
  moreover from this have "param p ''customer'' = JStr (cust_id c)"
    by (simp add: intent_params_def lookup_def)
  ultimately show "\<exists>g name email c. stripe = Some g
           \<and> destructure_name_email (metadata b) = Inr (name, email)
           \<and> customers_create g (customer_params name email) = Inr c
           \<and> snd (create_payment_intent J stripe b) =
                [CustomersCreate (customer_params name email), PaymentIntentsCreate p]
           \<and> param p ''customer'' = JStr (cust_id c)"
    by blast
next
  fix q
  show "CustomersCreate q \<notin> set (snd (create_payment_intent_manual J stripe b))"
    using variant_calls [of "[(''capture_method'', JStr ''manual'')]" J stripe b]
    by (auto simp add: create_payment_intent_manual_def)
next
  fix q
  show "CustomersCreate q \<notin> set (snd (create_payment_intent_serverless J stripe b))"
    using variant_calls [of "[]" J stripe b]
    by (auto simp add: create_payment_intent_serverless_def)
qed

theorem customer_created_before_intent_example:
  "status (fst (create_payment_intent sample_engine (Some (sample_gateway ''succeeded'' [] [] []))
             sample_request)) = 200
   \<and> snd (create_payment_intent sample_engine (Some (sample_gateway ''succeeded'' [] [] []))
             sample_request) =
       [CustomersCreate (customer_params (JStr ''Ann'') (JStr ''ann@example.com'')),
        PaymentIntentsCreate
          (intent_params sample_engine sample_request (JStr ''Ann'') (JStr ''ann@example.com'')
             \<lparr>cust_id = ''cus_1''\<rparr>)]
   \<and> param (intent_params sample_engine sample_request (JStr ''Ann'') (JStr ''ann@example.com'')
              \<lparr>cust_id = ''cus_1''\<rparr>) ''customer'' = JStr ''cus_1''"
proof -
  let ?g = "sample_gateway ''succeeded'' [] [] []"
  let ?run = "create_payment_intent sample_engine (Some ?g) sample_request"
  let ?p = "intent_params sample_engine sample_request (JStr ''Ann'') (JStr ''ann@example.com'')
              \<lparr>cust_id = ''cus_1''\<rparr>"
  have ok: "status (fst ?run) = 200"
    by (simp add: create_payment_intent_def sample_request_def sample_destructure sample_gateway_def)
  have calls: "snd ?run = [CustomersCreate (customer_params (JStr ''Ann'') (JStr ''ann@example.com'')),
                          PaymentIntentsCreate ?p]"
    by (simp add: create_payment_intent_def sample_request_def sample_destructure sample_gateway_def)
  then have mem: "PaymentIntentsCreate ?p \<in> set (snd ?run)" by simp
  from customer_created_before_intent
         [of sample_engine "Some ?g" sample_request, THEN conjunct2, THEN conjunct1, rule_format,
          OF mem]
  obtain g name email c where g: "Some ?g = Some g"
    and c: "customers_create g (customer_params name email) = Inr c"
    and p: "param ?p ''customer'' = JStr (cust_id c)"
    by (elim exE conjE)
  from g have "g = ?g" by simp
  with c have "cust_id c = ''cus_1''"
    by (auto simp add: sample_gateway_def)
  with p have id: "param ?p ''customer'' = JStr ''cus_1''"
    by simp
  show ?thesis by (intro conjI ok calls id)
qed

text \<open>
  The claim as it is written fails on the serverless handler: a request that succeeds
  there has issued the creation of the intent alone.
\<close>

theorem serverless_creates_no_customer:
  "create_payment_intent_serverless sample_engine (Some (sample_gateway ''succeeded'' [] [] []))
      sample_request =
     (\<lparr>status = 200, body = IntentCreated ''pi_1'' (Some ''pi_1_secret'')\<rparr>,
      [PaymentIntentsCreate
         (JObj [(''amount'', JNum (Fin 1250)),
                (''currency'', JStr ''usd''),
                (''payment_method_types'', JArr [JStr ''card_present'']),
                (''metadata'', JObj [(''name'', JStr ''Ann''),
                                     (''email'', JStr ''ann@example.com''), (''order'', JStr ''17'')])])])"
  by (simp add: create_payment_intent_serverless_def create_payment_intent_variant_def
      sample_gateway_def sample_request_def sample_metadata_def
      sample_engine_def variant_params_def metadata_or_empty_def math_round_1250
      del: math_round.simps)

text \<open>
  Claim C9: whenever the server's handler issues the call that creates the intent, the
  request's \<open>metadata\<close> is an object, and the \<open>metadata\<close> of the call is that
  object with \<open>name\<close> set to the request's \<open>metadata.email\<close>; every other key
  is as it was.
\<close>

theorem forwarded_metadata_name_is_email:
  assumes "PaymentIntentsCreate p \<in> set (snd (create_payment_intent J stripe b))"
  shows "\<exists>kvs fwd. metadata b = JObj kvs \<and> param p ''metadata'' = JObj fwd
           \<and> map_of fwd ''name'' = Some (lookup kvs ''email'')
           \<and> (\<forall>k. k \<noteq> ''name'' \<longrightarrow> map_of fwd k = map_of kvs k)"
proof -
  from intent_call_shape [OF assms] obtain g name email c where
    d: "destructure_name_email (metadata b) = Inr (name, email)" and n: "\<not> falsy name"
    and p: "p = intent_params J b name email c"
    by blast
  from destructure_truthy_name [OF d n] obtain kvs where
    m: "metadata b = JObj kvs" and e: "email = lookup kvs ''email''"
    by blast
  have "param p ''metadata'' = JObj (AList.update ''name'' email kvs)"
    by (simp add: p intent_params_def lookup_def m)
  with m e show ?thesis
    by (auto simp add: update_conv')
qed

theorem forwarded_metadata_example:
  "PaymentIntentsCreate
        (intent_params sample_engine sample_request (JStr ''Ann'') (JStr ''ann@example.com'')
           \<lparr>cust_id = ''cus_1''\<rparr>)
      \<in> set (snd (create_payment_intent sample_engine (Some (sample_gateway ''succeeded'' [] [] []))
                 sample_request))
   \<and> lookup [(''name'', JStr ''Ann''), (''email'', JStr ''ann@example.com''), (''order'', JStr ''17'')]
        ''name'' = JStr ''Ann''
   \<and> param (param (intent_params sample_engine sample_request (JStr ''Ann'') (JStr ''ann@example.com'')
              \<lparr>cust_id = ''cus_1''\<rparr>) ''metadata'') ''name'' = JStr ''ann@example.com''"
proof -
  let ?g = "sample_gateway ''succeeded'' [] [] []"
  let ?p = "intent_params sample_engine sample_request (JStr ''Ann'') (JStr ''ann@example.com'')
              \<lparr>cust_id = ''cus_1''\<rparr>"
  have mem: "PaymentIntentsCreate ?p \<in> set (snd (create_payment_intent sample_engine (Some ?g) sample_request))"
    by (simp add: create_payment_intent_def sample_request_def sample_destructure
        sample_gateway_def customer_params_def)
  from forwarded_metadata_name_is_email [OF mem] obtain kvs fwd where
    m: "metadata sample_request = JObj kvs" and f: "param ?p ''metadata'' = JObj fwd"
    and n: "map_of fwd ''name'' = Some (lookup kvs ''email'')"
    by (elim exE conjE)
  from m have kvs: "kvs = [(''name'', JStr ''Ann''), (''email'', JStr ''ann@example.com''),
                           (''order'', JStr ''17'')]"
    by (simp add: sample_request_def sample_metadata_def)
  from f n have "param (param ?p ''metadata'') ''name'' = lookup kvs ''email''"
    by (simp add: lookup_def)
  then have "param (param ?p ''metadata'') ''name'' = JStr ''ann@example.com''"
    by (simp add: kvs lookup_def)
  with mem show ?thesis by (simp add: lookup_def)
qed

text \<open>
  Claim C10: when the body has no \<open>metadata\<close> and the client is initialised, the
  destructuring throws before any check of the fields, no call is issued, and the answer
  is 500 with the general failure message and the \<open>TypeError\<close>'s text as details.
\<close>

theorem missing_metadata_is_500:
  assumes "metadata b = Undefined"
  shows "create_payment_intent J (Some g) b =
           (\<lparr>status = 500,
             body = ErrorDetails ''Failed to create payment intent''
                      ''Cannot destructure property 'name' of 'metadata' as it is undefined.''\<rparr>, [])"
  using assms by (simp add: create_payment_intent_def intent_failure_def)

theorem missing_metadata_example:
  "create_payment_intent sample_engine (Some (sample_gateway ''succeeded'' [] [] []))
      \<lparr>amount = JNum (Fin 20), metadata = Undefined\<rparr> =
     (\<lparr>status = 500,
       body = ErrorDetails ''Failed to create payment intent''
                ''Cannot destructure property 'name' of 'metadata' as it is undefined.''\<rparr>, [])
   \<and> create_payment_intent sample_engine (Some (sample_gateway ''succeeded'' [] [] []))
      \<lparr>amount = JNum (Fin 20), metadata = JObj []\<rparr> =
     (\<lparr>status = 400, body = ErrorOnly ''Customer email and name is required''\<rparr>, [])"
proof -
  have "metadata \<lparr>amount = JNum (Fin 20), metadata = Undefined\<rparr> = Undefined" by simp
  from missing_metadata_is_500 [OF this] show ?thesis
    by (simp add: create_payment_intent_def lookup_def)
qed

end
